theory Spec2Isabelle
  imports Main
begin

section \<open>Identity and access control of the point-of-sale backend\<close>

text \<open>
  A shallow embedding of \<^verbatim>\<open>internal/services/auth_service.go\<close>, of
  package auth (\<^verbatim>\<open>pkg/auth\<close>: the JWTManager and the PasswordManager) and of
  the model types of \<^verbatim>\<open>internal/models\<close>. Every Go function keeps its name. A Go function
  returning \<^verbatim>\<open>(T, error)\<close> returns \<open>error + T\<close> here (\<open>Inl\<close> the
  error); one returning only \<^verbatim>\<open>error\<close> returns \<open>error option\<close>. The
  database is passed in and returned. The clock, the random source, the identifiers
  drawn by \<^verbatim>\<open>uuid.New\<close> and what the database driver reports for the
  statements whose error the service drops are arguments.
\<close>

subsection \<open>Errors\<close>

text \<open>
  The sentinel errors of package services (\<^verbatim>\<open>auth_service.go\<close>, lines 18 to 26), those of
  the libraries the code calls, \<^verbatim>\<open>errors.New(text)\<close> and
  \<^verbatim>\<open>fmt.Errorf(text + ": %w", err)\<close>.
\<close>

datatype error =
    ErrInvalidCredentials
  | ErrUserNotFound
  | ErrUserNotActive
  | ErrEmailAlreadyExists
  | ErrInvalidToken
  | ErrTokenExpired
  | ErrInsufficientRole
  | gorm_ErrRecordNotFound
  | gorm_ErrDuplicatedKey
  | gorm_ErrForeignKeyViolated
  | driver_ErrBadConn
  | bcrypt_ErrPasswordTooLong
  | bcrypt_ErrMismatchedHashAndPassword
  | bcrypt_ErrHashTooShort
  | bcrypt_InvalidCostError int
  | jwt_ErrTokenMalformed
  | jwt_ErrTokenUnverifiable error
  | jwt_ErrTokenSignatureInvalid
  | jwt_ErrTokenExpired
  | jwt_ErrTokenNotValidYet
  | rand_ErrRead
  | errors_New string
  | fmt_Errorf string error

subsection \<open>Time\<close>

text \<open>
  An instant is a number of nanoseconds since the epoch, a \<^verbatim>\<open>time.Duration\<close>
  a number of nanoseconds. Durations are 64-bit in Go: \<open>wrap64\<close> is the
  wrap-around of a product that leaves the range.
\<close>

type_synonym time = int

type_synonym Duration = int

definition Second :: Duration where
  "Second = 1000000000"

definition Hour :: Duration where
  "Hour = 3600 * Second"

definition wrap64 :: "int \<Rightarrow> int" where
  "wrap64 x = (x + 2 ^ 63) mod 2 ^ 64 - 2 ^ 63"

subsection \<open>Roles (models) and the role check (AuthService.ValidateRole)\<close>

type_synonym Role = string

definition RoleAdmin :: Role where
  "RoleAdmin = ''ADMIN''"

definition RoleManager :: Role where
  "RoleManager = ''MANAGER''"

definition RoleCashier :: Role where
  "RoleCashier = ''CASHIER''"

text \<open>The map literal of ValidateRole (\<^verbatim>\<open>auth_service.go\<close>, lines 313 to 317).\<close>

definition roleHierarchy :: "Role \<rightharpoonup> int" where
  "roleHierarchy = [RoleCashier \<mapsto> 1, RoleManager \<mapsto> 2, RoleAdmin \<mapsto> 3]"

text \<open>Indexing a Go map with a key it does not hold yields the zero value.\<close>

definition roleLevel :: "Role \<Rightarrow> int" where
  "roleLevel r = (case roleHierarchy r of Some n \<Rightarrow> n | None \<Rightarrow> 0)"

definition ValidateRole :: "Role \<Rightarrow> Role \<Rightarrow> error option" where
  "ValidateRole userRole requiredRole =
     (let userLevel = roleLevel userRole;
          requiredLevel = roleLevel requiredRole
      in if userLevel < requiredLevel then Some ErrInsufficientRole else None)"

subsection \<open>Password hashing: golang.org/x/crypto/bcrypt\<close>

text \<open>
  bcrypt is a library outside the repository. It is modelled by its documented
  contract. The stored hash text carries the cost, the salt and a digest of cost, salt
  and key; the digest is taken as ideal (one-way and free of collisions) and is
  represented by the key material it was computed from. The key material of a password
  is what the Blowfish key schedule reads: the first 72 bytes of the password followed
  by a zero byte, that text being repeated as often as needed.
  \<^verbatim>\<open>GenerateFromPassword\<close> refuses a
  password of more than 72 bytes, replaces a cost below \<^verbatim>\<open>MinCost\<close> by
  \<^verbatim>\<open>DefaultCost\<close>, refuses a cost above \<^verbatim>\<open>MaxCost\<close> and reads
  the salt from the random source (\<open>None\<close>: the read failed).
  \<^verbatim>\<open>CompareHashAndPassword\<close> recomputes the digest with the stored cost and
  salt and does not look at the length of the password.
\<close>

datatype hash_text =
    bcrypt_Hash int string string
  | NotAHash string

definition bcrypt_MinCost :: int where
  "bcrypt_MinCost = 4"

definition bcrypt_MaxCost :: int where
  "bcrypt_MaxCost = 31"

definition bcrypt_DefaultCost :: int where
  "bcrypt_DefaultCost = 10"

definition bcrypt_key :: "string \<Rightarrow> string" where
  "bcrypt_key password =
     (let ckey = password @ [CHR 0x00]
      in map (\<lambda>i. ckey ! (i mod length ckey)) [0..<72])"

definition bcrypt_GenerateFromPassword ::
  "string \<Rightarrow> int \<Rightarrow> string option \<Rightarrow> error + hash_text" where
  "bcrypt_GenerateFromPassword password cost salt =
     (if length password > 72 then Inl bcrypt_ErrPasswordTooLong
      else let cost' = (if cost < bcrypt_MinCost then bcrypt_DefaultCost else cost)
        in if cost' > bcrypt_MaxCost then Inl (bcrypt_InvalidCostError cost')
           else (case salt of
                   None \<Rightarrow> Inl rand_ErrRead
                 | Some s \<Rightarrow> Inr (bcrypt_Hash cost' s (bcrypt_key password))))"

definition bcrypt_CompareHashAndPassword :: "hash_text \<Rightarrow> string \<Rightarrow> error option" where
  "bcrypt_CompareHashAndPassword hashedPassword password =
     (case hashedPassword of
        NotAHash _ \<Rightarrow> Some bcrypt_ErrHashTooShort
      | bcrypt_Hash cost salt key \<Rightarrow>
          if bcrypt_key password = key then None
          else Some bcrypt_ErrMismatchedHashAndPassword)"

subsection \<open>PasswordManager (pkg/auth/password.go)\<close>

record PasswordManager =
  saltRounds :: int

definition NewPasswordManager :: "int \<Rightarrow> PasswordManager" where
  "NewPasswordManager n = \<lparr>saltRounds = (if n < 10 then 12 else n)\<rparr>"

text \<open>
  The four character classes of ValidatePassword, each a regular expression matched
  anywhere in the password: \<^verbatim>\<open>[A-Z]\<close>, \<^verbatim>\<open>[a-z]\<close>, \<^verbatim>\<open>[0-9]\<close>
  and the class of special characters (the apostrophe, the double quote and the
  backslash are written by their codes).
\<close>

definition hasUpper :: "string \<Rightarrow> bool" where
  "hasUpper password =
     list_ex (\<lambda>c. 65 \<le> (of_char c :: nat) \<and> (of_char c :: nat) \<le> 90) password"

definition hasLower :: "string \<Rightarrow> bool" where
  "hasLower password =
     list_ex (\<lambda>c. 97 \<le> (of_char c :: nat) \<and> (of_char c :: nat) \<le> 122) password"

definition hasNumber :: "string \<Rightarrow> bool" where
  "hasNumber password =
     list_ex (\<lambda>c. 48 \<le> (of_char c :: nat) \<and> (of_char c :: nat) \<le> 57) password"

definition specialChars :: string where
  "specialChars = ''!@#$%^&*()_+-=[]{};:|,.<>/?'' @ [CHR 0x27, CHR 0x22, CHR 0x5C]"

definition hasSpecial :: "string \<Rightarrow> bool" where
  "hasSpecial password = list_ex (\<lambda>c. c \<in> set specialChars) password"

definition ValidatePassword :: "string \<Rightarrow> error option" where
  "ValidatePassword password =
     (if length password < 8
        then Some (errors_New ''password must be at least 8 characters long'')
      else if length password > 128
        then Some (errors_New ''password must be less than 128 characters long'')
      else if \<not> hasUpper password
        then Some (errors_New ''password must contain at least one uppercase letter'')
      else if \<not> hasLower password
        then Some (errors_New ''password must contain at least one lowercase letter'')
      else if \<not> hasNumber password
        then Some (errors_New ''password must contain at least one number'')
      else if \<not> hasSpecial password
        then Some (errors_New ''password must contain at least one special character'')
      else None)"

text \<open>The second argument is what the random source delivers for the salt.\<close>

definition HashPassword ::
  "PasswordManager \<Rightarrow> string option \<Rightarrow> string \<Rightarrow> error + hash_text" where
  "HashPassword pm salt password =
     (case ValidatePassword password of
        Some err \<Rightarrow> Inl err
      | None \<Rightarrow> bcrypt_GenerateFromPassword password (saltRounds pm) salt)"

definition VerifyPassword :: "PasswordManager \<Rightarrow> string \<Rightarrow> hash_text \<Rightarrow> error option" where
  "VerifyPassword pm password hash = bcrypt_CompareHashAndPassword hash password"

subsection \<open>Identifiers: github.com/google/uuid\<close>

text \<open>
  A uuid is represented by its 128-bit value. A text that \<^verbatim>\<open>uuid.Parse\<close>
  accepts is represented by the uuid it denotes (\<open>UUIDText\<close>), any other text by
  itself (\<open>PlainText\<close>); \<^verbatim>\<open>UUID.String\<close> yields the former.
\<close>

datatype uuid = UUID nat

definition uuid_Nil :: uuid where
  "uuid_Nil = UUID 0"

datatype id_text =
    UUIDText uuid
  | PlainText string

definition uuid_String :: "uuid \<Rightarrow> id_text" where
  "uuid_String u = UUIDText u"

definition uuid_Parse :: "id_text \<Rightarrow> error + uuid" where
  "uuid_Parse s =
     (case s of
        UUIDText u \<Rightarrow> Inr u
      | PlainText t \<Rightarrow> Inl (errors_New ''invalid UUID format''))"

subsection \<open>Signed tokens: github.com/golang-jwt/jwt/v5\<close>

text \<open>
  The claims of a token (package auth, struct Claims): the fields of the struct and the
  registered claims it embeds that the code sets. The three dates are pointers in Go,
  options here.
\<close>

record Claims =
  Claims_UserID :: id_text
  Claims_Email :: string
  Claims_Role :: string
  Claims_Name :: string
  Claims_TokenType :: string
  Claims_ID :: string
  Claims_ExpiresAt :: "time option"
  Claims_IssuedAt :: "time option"
  Claims_NotBefore :: "time option"
  Claims_Issuer :: string
  Claims_Subject :: id_text

text \<open>
  The library is outside the repository and is modelled by its documented contract. A
  token text is either not a token at all or a header naming the signing method, the
  claims and a signature. The signature is represented by the key that made it: HMAC is
  taken as unforgeable, so a signature verifies under a key exactly when that key made
  it.
\<close>

datatype SigningMethod =
    SigningMethodHS256
  | SigningMethodHS384
  | SigningMethodHS512
  | SigningMethodOther string

definition is_SigningMethodHMAC :: "SigningMethod \<Rightarrow> bool" where
  "is_SigningMethodHMAC m = (case m of SigningMethodOther _ \<Rightarrow> False | _ \<Rightarrow> True)"

datatype token =
    JWT SigningMethod Claims string
  | NotJWT string

text \<open>\<^verbatim>\<open>jwt.NewNumericDate\<close> truncates an instant to the second.\<close>

definition jwt_NewNumericDate :: "time \<Rightarrow> time" where
  "jwt_NewNumericDate t = t - t mod Second"

text \<open>
  The library serialises the claims with \<^verbatim>\<open>encoding/json\<close>, which coerces
  every string to valid UTF-8: a byte that does not begin a well-formed sequence
  (\<^verbatim>\<open>utf8.DecodeRuneInString\<close> returns \<^verbatim>\<open>RuneError\<close> with size 1) is
  written as U+FFFD, the bytes EF BF BD, and the scan goes on at the next byte. A string
  is its list of bytes. \<open>utf8_size b bs\<close> is the length of the well-formed sequence
  that the byte \<open>b\<close> begins when \<open>bs\<close> follows it, or 0 when it begins none.
\<close>

definition utf8_in :: "nat \<Rightarrow> nat \<Rightarrow> char \<Rightarrow> bool" where
  "utf8_in lo hi c = (lo \<le> (of_char c :: nat) \<and> (of_char c :: nat) \<le> hi)"

definition utf8_size :: "char \<Rightarrow> string \<Rightarrow> nat" where
  "utf8_size b bs =
     (if utf8_in 0x00 0x7F b then 1
      else if utf8_in 0xC2 0xDF b then
        (case bs of
           c1 # _ \<Rightarrow> if utf8_in 0x80 0xBF c1 then 2 else 0
         | _ \<Rightarrow> 0)
      else if utf8_in 0xE0 0xEF b then
        (case bs of
           c1 # c2 # _ \<Rightarrow>
             if utf8_in (if utf8_in 0xE0 0xE0 b then 0xA0 else 0x80)
                  (if utf8_in 0xED 0xED b then 0x9F else 0xBF) c1
                \<and> utf8_in 0x80 0xBF c2
               then 3 else 0
         | _ \<Rightarrow> 0)
      else if utf8_in 0xF0 0xF4 b then
        (case bs of
           c1 # c2 # c3 # _ \<Rightarrow>
             if utf8_in (if utf8_in 0xF0 0xF0 b then 0x90 else 0x80)
                  (if utf8_in 0xF4 0xF4 b then 0x8F else 0xBF) c1
                \<and> utf8_in 0x80 0xBF c2 \<and> utf8_in 0x80 0xBF c3
               then 4 else 0
         | _ \<Rightarrow> 0)
      else 0)"

definition utf8_RuneError :: string where
  "utf8_RuneError = [CHR 0xEF, CHR 0xBF, CHR 0xBD]"

text \<open>
  The coercion, byte by byte; the first argument counts the bytes still to copy of the
  well-formed sequence being read.
\<close>

fun json_bytes :: "nat \<Rightarrow> string \<Rightarrow> string" where
  "json_bytes k [] = []"
| "json_bytes (Suc k) (b # bs) = b # json_bytes k bs"
| "json_bytes 0 (b # bs) =
     (if utf8_size b bs = 0 then utf8_RuneError @ json_bytes 0 bs
      else b # json_bytes (utf8_size b bs - 1) bs)"

definition json_string :: "string \<Rightarrow> string" where
  "json_string s = json_bytes 0 s"

text \<open>
  The text of a uuid is ASCII and is left as it is; a text that is no uuid stays none,
  because the coercion leaves a well-formed text unchanged and puts U+FFFD into any
  other.
\<close>

definition json_id_text :: "id_text \<Rightarrow> id_text" where
  "json_id_text s =
     (case s of
        UUIDText u \<Rightarrow> UUIDText u
      | PlainText t \<Rightarrow> PlainText (json_string t))"

text \<open>
  \<^verbatim>\<open>Token.SignedString\<close>: the token text holds the claims as a parser will read
  them back, that is after the coercion of their strings, and the signature.
\<close>

definition jwt_SignedString :: "SigningMethod \<Rightarrow> Claims \<Rightarrow> string \<Rightarrow> token" where
  "jwt_SignedString method claims key =
     JWT method
       (claims\<lparr>Claims_UserID := json_id_text (Claims_UserID claims),
               Claims_Email := json_string (Claims_Email claims),
               Claims_Role := json_string (Claims_Role claims),
               Claims_Name := json_string (Claims_Name claims),
               Claims_TokenType := json_string (Claims_TokenType claims),
               Claims_ID := json_string (Claims_ID claims),
               Claims_Issuer := json_string (Claims_Issuer claims),
               Claims_Subject := json_id_text (Claims_Subject claims)\<rparr>)
       key"

text \<open>
  The library's own validation of the registered claims, with the parser's default
  options (the code passes none): a token is refused unless now is before exp, and
  refused while now is before nbf. Of several errors the first is kept.
\<close>

definition jwt_Validator_Validate :: "Claims \<Rightarrow> time \<Rightarrow> error option" where
  "jwt_Validator_Validate claims now =
     (if (case Claims_ExpiresAt claims of Some e \<Rightarrow> \<not> now < e | None \<Rightarrow> False)
        then Some jwt_ErrTokenExpired
      else if (case Claims_NotBefore claims of Some n \<Rightarrow> now < n | None \<Rightarrow> False)
        then Some jwt_ErrTokenNotValidYet
      else None)"

text \<open>
  \<^verbatim>\<open>jwt.ParseWithClaims\<close>: parse the text, ask the key function for the key,
  verify the signature, then validate the registered claims; \<open>Inr claims\<close> is a
  token with \<^verbatim>\<open>Valid\<close> set.
\<close>

definition jwt_ParseWithClaims ::
  "(SigningMethod \<Rightarrow> error + string) \<Rightarrow> time \<Rightarrow> token \<Rightarrow> error + Claims" where
  "jwt_ParseWithClaims keyFunc now tokenString =
     (case tokenString of
        NotJWT _ \<Rightarrow> Inl jwt_ErrTokenMalformed
      | JWT method claims signature \<Rightarrow>
          (case keyFunc method of
             Inl err \<Rightarrow> Inl (jwt_ErrTokenUnverifiable err)
           | Inr key \<Rightarrow>
               if signature \<noteq> key then Inl jwt_ErrTokenSignatureInvalid
               else (case jwt_Validator_Validate claims now of
                       Some err \<Rightarrow> Inl err
                     | None \<Rightarrow> Inr claims)))"

subsection \<open>JWTManager (package auth)\<close>

record JWTManager =
  secretKey :: string
  accessTokenTTL :: Duration
  refreshTokenTTL :: Duration

definition NewJWTManager :: "string \<Rightarrow> int \<Rightarrow> int \<Rightarrow> JWTManager" where
  "NewJWTManager key accessTTLHours refreshTTLDays =
     \<lparr>secretKey = key,
      accessTokenTTL = wrap64 (accessTTLHours * Hour),
      refreshTokenTTL = wrap64 (wrap64 (refreshTTLDays * 24) * Hour)\<rparr>"

definition hex_digit :: "nat \<Rightarrow> char" where
  "hex_digit n = ''0123456789abcdef'' ! n"

definition hex_EncodeToString :: "string \<Rightarrow> string" where
  "hex_EncodeToString bytes =
     concat (map (\<lambda>c. [hex_digit (of_char c div 16), hex_digit (of_char c mod 16)]) bytes)"

text \<open>The argument is what \<^verbatim>\<open>rand.Read\<close> delivers: the bytes, or \<open>None\<close> for an error.\<close>

definition generateUniqueID :: "string option \<Rightarrow> error + string" where
  "generateUniqueID rnd =
     (case rnd of
        None \<Rightarrow> Inl rand_ErrRead
      | Some bytes \<Rightarrow> Inr (hex_EncodeToString bytes))"

definition GenerateAccessToken ::
  "JWTManager \<Rightarrow> time \<Rightarrow> string option \<Rightarrow> id_text \<Rightarrow> string \<Rightarrow> string \<Rightarrow> string
     \<Rightarrow> error + token" where
  "GenerateAccessToken j now rnd userID email role name =
     (case generateUniqueID rnd of
        Inl err \<Rightarrow> Inl err
      | Inr tokenID \<Rightarrow>
          Inr (jwt_SignedString SigningMethodHS256
            \<lparr>Claims_UserID = userID,
             Claims_Email = email,
             Claims_Role = role,
             Claims_Name = name,
             Claims_TokenType = ''access'',
             Claims_ID = tokenID,
             Claims_ExpiresAt = Some (jwt_NewNumericDate (now + accessTokenTTL j)),
             Claims_IssuedAt = Some (jwt_NewNumericDate now),
             Claims_NotBefore = Some (jwt_NewNumericDate now),
             Claims_Issuer = ''pos-system'',
             Claims_Subject = userID\<rparr>
            (secretKey j)))"

definition GenerateRefreshToken ::
  "JWTManager \<Rightarrow> time \<Rightarrow> string option \<Rightarrow> id_text \<Rightarrow> string \<Rightarrow> error + token" where
  "GenerateRefreshToken j now rnd userID email =
     (case generateUniqueID rnd of
        Inl err \<Rightarrow> Inl err
      | Inr tokenID \<Rightarrow>
          Inr (jwt_SignedString SigningMethodHS256
            \<lparr>Claims_UserID = userID,
             Claims_Email = email,
             Claims_Role = [],
             Claims_Name = [],
             Claims_TokenType = ''refresh'',
             Claims_ID = tokenID,
             Claims_ExpiresAt = Some (jwt_NewNumericDate (now + refreshTokenTTL j)),
             Claims_IssuedAt = Some (jwt_NewNumericDate now),
             Claims_NotBefore = Some (jwt_NewNumericDate now),
             Claims_Issuer = ''pos-system'',
             Claims_Subject = userID\<rparr>
            (secretKey j)))"

text \<open>
  ValidateToken (lines 93 to 114 of the JWTManager's file): the key function refuses a
  method that is not HMAC; after the library's parse the code compares the expiry with
  the clock itself, \<^verbatim>\<open>claims.ExpiresAt.Time.Before(time.Now())\<close>. The library
  and the code read the clock at the one instant \<open>now\<close>. A parse without error
  yields claims of the expected type with \<^verbatim>\<open>Valid\<close> set, so the last return
  of the function (invalid token) is never taken.
\<close>

definition ValidateToken :: "JWTManager \<Rightarrow> time \<Rightarrow> token \<Rightarrow> error + Claims" where
  "ValidateToken j now tokenString =
     (case jwt_ParseWithClaims
             (\<lambda>method. if is_SigningMethodHMAC method then Inr (secretKey j)
                        else Inl (errors_New ''invalid token signing method''))
             now tokenString of
        Inl err \<Rightarrow> Inl err
      | Inr claims \<Rightarrow>
          (case Claims_ExpiresAt claims of
             Some e \<Rightarrow>
               if e < now then Inl (errors_New ''token has expired'') else Inr claims
           | None \<Rightarrow> Inr claims))"

definition ValidateAccessToken :: "JWTManager \<Rightarrow> time \<Rightarrow> token \<Rightarrow> error + Claims" where
  "ValidateAccessToken j now tokenString =
     (case ValidateToken j now tokenString of
        Inl err \<Rightarrow> Inl err
      | Inr claims \<Rightarrow>
          if Claims_TokenType claims \<noteq> ''access''
            then Inl (errors_New ''invalid token type, expected access token'')
          else Inr claims)"

definition ValidateRefreshToken :: "JWTManager \<Rightarrow> time \<Rightarrow> token \<Rightarrow> error + Claims" where
  "ValidateRefreshToken j now tokenString =
     (case ValidateToken j now tokenString of
        Inl err \<Rightarrow> Inl err
      | Inr claims \<Rightarrow>
          if Claims_TokenType claims \<noteq> ''refresh''
            then Inl (errors_New ''invalid token type, expected refresh token'')
          else Inr claims)"

subsection \<open>Model types (internal/models)\<close>

text \<open>
  The structs of package models with the fields the operations below read or write.
  The timestamps of users, accounts and passwords, and the relationship fields, play no
  part in them and are left out.
\<close>

record User =
  User_ID :: uuid
  User_Email :: string
  User_Name :: string
  User_Role :: Role
  User_IsActive :: bool
  User_LastLoginAt :: "time option"

record Account =
  Account_ID :: uuid
  Account_UserID :: uuid
  Account_Type :: string
  Account_Provider :: string
  Account_ProviderAccountID :: string

record Session =
  Session_ID :: uuid
  Session_SessionToken :: token
  Session_UserID :: uuid
  Session_ExpiresAt :: time
  Session_IPAddress :: "string option"
  Session_UserAgent :: "string option"
  Session_IsActive :: bool
  Session_CreatedAt :: time
  Session_UpdatedAt :: time

record Password =
  Password_ID :: uuid
  Password_UserID :: uuid
  Password_HashedPassword :: hash_text

record RegisterRequest =
  RegisterRequest_Name :: string
  RegisterRequest_Email :: string
  RegisterRequest_Password :: string
  RegisterRequest_Role :: "Role option"

record LoginRequest =
  LoginRequest_Email :: string
  LoginRequest_Password :: string

record RefreshTokenRequest =
  RefreshTokenRequest_RefreshToken :: token


record AuthResponse =
  AuthResponse_User :: User
  AuthResponse_AccessToken :: token
  AuthResponse_RefreshToken :: token
  AuthResponse_ExpiresIn :: int

record RefreshTokenResponse =
  RefreshTokenResponse_AccessToken :: token
  RefreshTokenResponse_RefreshToken :: token
  RefreshTokenResponse_ExpiresIn :: int

text \<open>The zero value of \<^verbatim>\<open>time.Time\<close>: the first instant of year 1.\<close>

definition time_zero :: time where
  "time_zero = - 62135596800 * Second"

text \<open>
  The hook \<^verbatim>\<open>Session.BeforeCreate\<close> of package models, which gorm
  runs when a session is created. \<open>fresh\<close> is what \<^verbatim>\<open>uuid.New\<close> would deliver.
\<close>

definition Session_BeforeCreate :: "time \<Rightarrow> uuid \<Rightarrow> Session \<Rightarrow> Session" where
  "Session_BeforeCreate now fresh s =
     s\<lparr>Session_ID := (if Session_ID s = uuid_Nil then fresh else Session_ID s),
       Session_CreatedAt := now,
       Session_UpdatedAt := now\<rparr>"

subsection \<open>The database and the repositories\<close>

text \<open>
  The tables the service works on (migration 001, tables users, accounts, sessions and
  passwords), each the list of its rows in the order they were inserted.
\<close>

record database =
  users :: "User list"
  accounts :: "Account list"
  sessions :: "Session list"
  passwords :: "Password list"

text \<open>
  The repository holds the interfaces of package repository only (UserRepository,
  AccountRepository, SessionRepository, PasswordRepository); their implementations are
  missing. Each method used by the service is modelled from the contracts of the
  specification (sections 3, 4.4 and 6) on the tables above, the keys being those of
  the migration: primary keys, the unique columns and the references to users. A lookup
  that finds no row fails with \<^verbatim>\<open>gorm.ErrRecordNotFound\<close>, the error Login
  tests for. A statement can also fail for a reason outside the tables (the connection
  is lost, the context is cancelled). This is modelled for the two statements of the
  session repository whose error ChangePassword and RefreshToken drop, the listing of
  the sessions of a user and the deletion of a session: what the driver reports is an
  argument of the method, \<open>None\<close> when the statement ran. The other methods are
  modelled as statements that run.
\<close>

text \<open>Modelled from the spec: UserRepository.GetByEmail (identity directory, get-by-email).\<close>

definition userRepo_GetByEmail :: "database \<Rightarrow> string \<Rightarrow> error + User" where
  "userRepo_GetByEmail db email =
     (case find (\<lambda>u. User_Email u = email) (users db) of
        None \<Rightarrow> Inl gorm_ErrRecordNotFound
      | Some u \<Rightarrow> Inr u)"

text \<open>Modelled from the spec: UserRepository.GetByID (identity directory, get-by-id).\<close>

definition userRepo_GetByID :: "database \<Rightarrow> uuid \<Rightarrow> error + User" where
  "userRepo_GetByID db ident =
     (case find (\<lambda>u. User_ID u = ident) (users db) of
        None \<Rightarrow> Inl gorm_ErrRecordNotFound
      | Some u \<Rightarrow> Inr u)"

text \<open>
  Modelled from the spec: UserRepository.Create. An identity has a unique identifier
  and a unique email (section 3).
\<close>

definition userRepo_Create :: "User \<Rightarrow> database \<Rightarrow> error option \<times> database" where
  "userRepo_Create user db =
     (if list_ex (\<lambda>u. User_ID u = User_ID user \<or> User_Email u = User_Email user) (users db)
        then (Some gorm_ErrDuplicatedKey, db)
      else (None, db\<lparr>users := users db @ [user]\<rparr>))"

text \<open>
  Modelled from the spec: UserRepository.UpdateLastLogin. The specification does not
  describe it; by its name it stamps the row of the user.
\<close>

definition userRepo_UpdateLastLogin :: "time \<Rightarrow> uuid \<Rightarrow> database \<Rightarrow> error option \<times> database" where
  "userRepo_UpdateLastLogin now ident db =
     (None, db\<lparr>users :=
        map (\<lambda>u. if User_ID u = ident then u\<lparr>User_LastLoginAt := Some now\<rparr> else u) (users db)\<rparr>)"

text \<open>
  Modelled from the spec: PasswordRepository.Create (credential store, create). There
  is exactly one credential per identity (section 3).
\<close>

definition passwordRepo_Create :: "Password \<Rightarrow> database \<Rightarrow> error option \<times> database" where
  "passwordRepo_Create password db =
     (if list_ex (\<lambda>p. Password_ID p = Password_ID password
                      \<or> Password_UserID p = Password_UserID password) (passwords db)
        then (Some gorm_ErrDuplicatedKey, db)
      else if find (\<lambda>u. User_ID u = Password_UserID password) (users db) = None
        then (Some gorm_ErrForeignKeyViolated, db)
      else (None, db\<lparr>passwords := passwords db @ [password]\<rparr>))"

text \<open>Modelled from the spec: PasswordRepository.GetByUserID (credential store, get-by-identity).\<close>

definition passwordRepo_GetByUserID :: "database \<Rightarrow> uuid \<Rightarrow> error + Password" where
  "passwordRepo_GetByUserID db userID =
     (case find (\<lambda>p. Password_UserID p = userID) (passwords db) of
        None \<Rightarrow> Inl gorm_ErrRecordNotFound
      | Some p \<Rightarrow> Inr p)"

text \<open>Modelled from the spec: PasswordRepository.Update (credential store, update): the row is saved under its identifier.\<close>

definition passwordRepo_Update :: "Password \<Rightarrow> database \<Rightarrow> error option \<times> database" where
  "passwordRepo_Update password db =
     (None, db\<lparr>passwords :=
        map (\<lambda>p. if Password_ID p = Password_ID password then password else p)
          (passwords db)\<rparr>)"

text \<open>
  Modelled from the spec: AccountRepository.Create. The specification leaves the link
  between provider and identity to the collaborator; the keys are those of the
  migration (the pair of provider and provider account is unique).
\<close>

definition accountRepo_Create :: "Account \<Rightarrow> database \<Rightarrow> error option \<times> database" where
  "accountRepo_Create account db =
     (if list_ex (\<lambda>a. Account_ID a = Account_ID account
                      \<or> (Account_Provider a = Account_Provider account
                         \<and> Account_ProviderAccountID a = Account_ProviderAccountID account))
           (accounts db)
        then (Some gorm_ErrDuplicatedKey, db)
      else if find (\<lambda>u. User_ID u = Account_UserID account) (users db) = None
        then (Some gorm_ErrForeignKeyViolated, db)
      else (None, db\<lparr>accounts := accounts db @ [account]\<rparr>))"

text \<open>
  Modelled from the spec: SessionRepository.Create (session store, create): it inserts
  a new active session and fails when the refresh token already has a row. gorm runs
  the hook BeforeCreate first.
\<close>

definition sessionRepo_Create ::
  "time \<Rightarrow> uuid \<Rightarrow> Session \<Rightarrow> database \<Rightarrow> error option \<times> database" where
  "sessionRepo_Create now fresh session db =
     (let s = (Session_BeforeCreate now fresh session)\<lparr>Session_IsActive := True\<rparr>
      in if list_ex (\<lambda>r. Session_ID r = Session_ID s
                         \<or> Session_SessionToken r = Session_SessionToken s) (sessions db)
           then (Some gorm_ErrDuplicatedKey, db)
         else if find (\<lambda>u. User_ID u = Session_UserID s) (users db) = None
           then (Some gorm_ErrForeignKeyViolated, db)
         else (None, db\<lparr>sessions := sessions db @ [s]\<rparr>))"

text \<open>Modelled from the spec: SessionRepository.GetByToken (session store, getByToken): the session or NotFound.\<close>

definition sessionRepo_GetByToken :: "database \<Rightarrow> token \<Rightarrow> error + Session" where
  "sessionRepo_GetByToken db tok =
     (case find (\<lambda>s. Session_SessionToken s = tok) (sessions db) of
        None \<Rightarrow> Inl gorm_ErrRecordNotFound
      | Some s \<Rightarrow> Inr s)"

text \<open>
  Modelled from the spec: SessionRepository.GetByUserID: the sessions of an identity
  (several are allowed, section 4.4), or the error that the driver reports.
\<close>

definition sessionRepo_GetByUserID ::
  "error option \<Rightarrow> database \<Rightarrow> uuid \<Rightarrow> error + Session list" where
  "sessionRepo_GetByUserID reported db userID =
     (case reported of
        Some err \<Rightarrow> Inl err
      | None \<Rightarrow> Inr (filter (\<lambda>s. Session_UserID s = userID) (sessions db)))"

text \<open>
  Modelled from the spec: SessionRepository.Delete. The row is removed, as the name
  says and as the specification has it for refresh (the stale session is deleted);
  removing a row that is not there is not an error. When the driver reports an error
  the row stays.
\<close>

definition sessionRepo_Delete ::
  "error option \<Rightarrow> uuid \<Rightarrow> database \<Rightarrow> error option \<times> database" where
  "sessionRepo_Delete reported ident db =
     (case reported of
        Some err \<Rightarrow> (Some err, db)
      | None \<Rightarrow> (None, db\<lparr>sessions := filter (\<lambda>s. Session_ID s \<noteq> ident) (sessions db)\<rparr>))"

text \<open>
  Modelled from the spec: SessionRepository.RevokeAllUserSessions (session store,
  revokeAllForIdentity, section 4.4): the sessions of the identity are set inactive and
  their rows stay, as \<^verbatim>\<open>SessionManager.RevokeSession\<close> of package auth does
  with one session. AuthService does not call it; UserService does, for a user who
  revokes their own sessions and when an administrator deactivates a user.
\<close>

definition sessionRepo_RevokeAllUserSessions :: "uuid \<Rightarrow> database \<Rightarrow> error option \<times> database" where
  "sessionRepo_RevokeAllUserSessions userID db =
     (None, db\<lparr>sessions :=
        map (\<lambda>s. if Session_UserID s = userID then s\<lparr>Session_IsActive := False\<rparr> else s)
          (sessions db)\<rparr>)"

subsection \<open>Transactions: gorm.io/gorm\<close>

text \<open>
  A transaction of gorm holds the statements executed on its handle until
  \<^verbatim>\<open>Commit\<close> applies them; \<^verbatim>\<open>Rollback\<close> drops them. Statements executed
  on another handle are not part of it. The repositories of the service are fields set
  when the service was built and are called with \<^verbatim>\<open>ctx\<close>; the handle that
  \<^verbatim>\<open>s.db.Begin()\<close> returns is never passed to them, so what they write is
  written at once, outside the transaction.
\<close>

record gorm_tx =
  tx_statements :: "(database \<Rightarrow> database) list"

definition gorm_Begin :: "database \<Rightarrow> gorm_tx" where
  "gorm_Begin db = \<lparr>tx_statements = []\<rparr>"

definition gorm_Rollback :: "gorm_tx \<Rightarrow> database \<Rightarrow> database" where
  "gorm_Rollback tx db = db"

definition gorm_Commit :: "gorm_tx \<Rightarrow> database \<Rightarrow> error option \<times> database" where
  "gorm_Commit tx db = (None, foldl (\<lambda>d statement. statement d) db (tx_statements tx))"

subsection \<open>AuthService (package services)\<close>

text \<open>
  The service holds the repositories, the JWTManager and the database handle. Each
  operation below takes the JWTManager where it uses it, the instant \<open>now\<close> that
  \<^verbatim>\<open>time.Now()\<close> returns to the operation and to the JWTManager it calls,
  what the outside delivers during the call (the record \<open>draws\<close>), the request and
  the database, and returns its result with the database. A panic of
  \<^verbatim>\<open>uuid.New\<close> (the random source failing) is not modelled.

  The record \<open>draws\<close> holds what the calls to \<^verbatim>\<open>uuid.New\<close> and to the
  random source deliver; the instant that the hook BeforeCreate reads from the clock
  when the session is inserted, a reading of its own that comes after the one of
  Register or Login; and what the driver reports for the listing of the sessions of a
  user and for the deletion of the session with a given identifier.
\<close>

record draws =
  draw_user_id :: uuid
  draw_password_id :: uuid
  draw_account_id :: uuid
  draw_session_id :: uuid
  draw_hook_id :: uuid
  draw_salt :: "string option"
  draw_access_jti :: "string option"
  draw_refresh_jti :: "string option"
  draw_hook_now :: time
  draw_list_error :: "error option"
  draw_delete_error :: "uuid \<Rightarrow> error option"

definition Register ::
  "JWTManager \<Rightarrow> time \<Rightarrow> draws \<Rightarrow> RegisterRequest \<Rightarrow> database
     \<Rightarrow> (error + AuthResponse) \<times> database" where
  "Register j now dr req db =
     (case userRepo_GetByEmail db (RegisterRequest_Email req) of
        Inr existingUser \<Rightarrow> (Inl ErrEmailAlreadyExists, db)
      | Inl _ \<Rightarrow>
          let tx = gorm_Begin db;
              user = \<lparr>User_ID = draw_user_id dr,
                      User_Email = RegisterRequest_Email req,
                      User_Name = RegisterRequest_Name req,
                      User_Role = RoleCashier,
                      User_IsActive = True,
                      User_LastLoginAt = None\<rparr>
          in (case userRepo_Create user db of
                (Some err, db1) \<Rightarrow>
                  (Inl (fmt_Errorf ''failed to create user'' err), gorm_Rollback tx db1)
              | (None, db1) \<Rightarrow>
          (case bcrypt_GenerateFromPassword (RegisterRequest_Password req)
                  bcrypt_DefaultCost (draw_salt dr) of
             Inl err \<Rightarrow>
               (Inl (fmt_Errorf ''failed to hash password'' err), gorm_Rollback tx db1)
           | Inr hashedPassword \<Rightarrow>
          let password = \<lparr>Password_ID = draw_password_id dr,
                          Password_UserID = User_ID user,
                          Password_HashedPassword = hashedPassword\<rparr>
          in (case passwordRepo_Create password db1 of
                (Some err, db2) \<Rightarrow>
                  (Inl (fmt_Errorf ''failed to create password'' err), gorm_Rollback tx db2)
              | (None, db2) \<Rightarrow>
          let account = \<lparr>Account_ID = draw_account_id dr,
                         Account_UserID = User_ID user,
                         Account_Type = ''email'',
                         Account_Provider = ''email'',
                         Account_ProviderAccountID = RegisterRequest_Email req\<rparr>
          in (case accountRepo_Create account db2 of
                (Some err, db3) \<Rightarrow>
                  (Inl (fmt_Errorf ''failed to create account'' err), gorm_Rollback tx db3)
              | (None, db3) \<Rightarrow>
          (case gorm_Commit tx db3 of
             (Some err, db4) \<Rightarrow>
               (Inl (fmt_Errorf ''failed to commit transaction'' err), db4)
           | (None, db4) \<Rightarrow>
          (case GenerateAccessToken j now (draw_access_jti dr) (uuid_String (User_ID user))
                  (User_Email user) (User_Role user) (User_Name user) of
             Inl err \<Rightarrow> (Inl (fmt_Errorf ''failed to generate access token'' err), db4)
           | Inr accessToken \<Rightarrow>
          (case GenerateRefreshToken j now (draw_refresh_jti dr) (uuid_String (User_ID user))
                  (User_Email user) of
             Inl err \<Rightarrow> (Inl (fmt_Errorf ''failed to generate refresh token'' err), db4)
           | Inr refreshToken \<Rightarrow>
          let session = \<lparr>Session_ID = draw_session_id dr,
                         Session_SessionToken = refreshToken,
                         Session_UserID = User_ID user,
                         Session_ExpiresAt = now + 24 * Hour * 30,
                         Session_IPAddress = Some [],
                         Session_UserAgent = Some [],
                         Session_IsActive = False,
                         Session_CreatedAt = time_zero,
                         Session_UpdatedAt = time_zero\<rparr>
          in (case sessionRepo_Create (draw_hook_now dr) (draw_hook_id dr) session db4 of
                (Some err, db5) \<Rightarrow> (Inl (fmt_Errorf ''failed to create session'' err), db5)
              | (None, db5) \<Rightarrow>
                  (Inr \<lparr>AuthResponse_User = user,
                        AuthResponse_AccessToken = accessToken,
                        AuthResponse_RefreshToken = refreshToken,
                        AuthResponse_ExpiresIn = 3600\<rparr>, db5))))))))))"

definition Login ::
  "JWTManager \<Rightarrow> time \<Rightarrow> draws \<Rightarrow> LoginRequest \<Rightarrow> database
     \<Rightarrow> (error + AuthResponse) \<times> database" where
  "Login j now dr req db =
     (case userRepo_GetByEmail db (LoginRequest_Email req) of
        Inl err \<Rightarrow>
          if err = gorm_ErrRecordNotFound then (Inl ErrInvalidCredentials, db)
          else (Inl (fmt_Errorf ''failed to get user'' err), db)
      | Inr user \<Rightarrow>
          if \<not> User_IsActive user then (Inl ErrUserNotActive, db)
          else
          (case passwordRepo_GetByUserID db (User_ID user) of
             Inl _ \<Rightarrow> (Inl ErrInvalidCredentials, db)
           | Inr password \<Rightarrow>
          (case bcrypt_CompareHashAndPassword (Password_HashedPassword password)
                  (LoginRequest_Password req) of
             Some _ \<Rightarrow> (Inl ErrInvalidCredentials, db)
           | None \<Rightarrow>
          let db1 = snd (userRepo_UpdateLastLogin now (User_ID user) db)
          in
          (case GenerateAccessToken j now (draw_access_jti dr) (uuid_String (User_ID user))
                  (User_Email user) (User_Role user) (User_Name user) of
             Inl err \<Rightarrow> (Inl (fmt_Errorf ''failed to generate access token'' err), db1)
           | Inr accessToken \<Rightarrow>
          (case GenerateRefreshToken j now (draw_refresh_jti dr) (uuid_String (User_ID user))
                  (User_Email user) of
             Inl err \<Rightarrow> (Inl (fmt_Errorf ''failed to generate refresh token'' err), db1)
           | Inr refreshToken \<Rightarrow>
          let session = \<lparr>Session_ID = draw_session_id dr,
                         Session_SessionToken = refreshToken,
                         Session_UserID = User_ID user,
                         Session_ExpiresAt = now + 24 * Hour * 30,
                         Session_IPAddress = Some [],
                         Session_UserAgent = Some [],
                         Session_IsActive = False,
                         Session_CreatedAt = time_zero,
                         Session_UpdatedAt = time_zero\<rparr>
          in (case sessionRepo_Create (draw_hook_now dr) (draw_hook_id dr) session db1 of
                (Some err, db2) \<Rightarrow> (Inl (fmt_Errorf ''failed to create session'' err), db2)
              | (None, db2) \<Rightarrow>
                  (Inr \<lparr>AuthResponse_User = user,
                        AuthResponse_AccessToken = accessToken,
                        AuthResponse_RefreshToken = refreshToken,
                        AuthResponse_ExpiresIn = 3600\<rparr>, db2)))))))"

text \<open>
  RefreshToken leaves the refresh token of its response unset: the empty text.
\<close>

definition RefreshToken ::
  "JWTManager \<Rightarrow> time \<Rightarrow> draws \<Rightarrow> RefreshTokenRequest \<Rightarrow> database
     \<Rightarrow> (error + RefreshTokenResponse) \<times> database" where
  "RefreshToken j now dr req db =
     (case ValidateRefreshToken j now (RefreshTokenRequest_RefreshToken req) of
        Inl _ \<Rightarrow> (Inl ErrInvalidToken, db)
      | Inr claims \<Rightarrow>
     (case uuid_Parse (Claims_UserID claims) of
        Inl _ \<Rightarrow> (Inl ErrInvalidToken, db)
      | Inr userID \<Rightarrow>
     (case userRepo_GetByID db userID of
        Inl _ \<Rightarrow> (Inl ErrUserNotFound, db)
      | Inr user \<Rightarrow>
          if \<not> User_IsActive user then (Inl ErrUserNotActive, db)
          else
          (case sessionRepo_GetByToken db (RefreshTokenRequest_RefreshToken req) of
             Inl _ \<Rightarrow> (Inl ErrInvalidToken, db)
           | Inr session \<Rightarrow>
               if Session_ExpiresAt session < now
                 then (Inl ErrTokenExpired,
                       snd (sessionRepo_Delete (draw_delete_error dr (Session_ID session))
                              (Session_ID session) db))
               else
               (case GenerateAccessToken j now (draw_access_jti dr)
                       (uuid_String (User_ID user)) (User_Email user) (User_Role user)
                       (User_Name user) of
                  Inl err \<Rightarrow> (Inl (fmt_Errorf ''failed to generate access token'' err), db)
                | Inr accessToken \<Rightarrow>
                    (Inr \<lparr>RefreshTokenResponse_AccessToken = accessToken,
                          RefreshTokenResponse_RefreshToken = NotJWT [],
                          RefreshTokenResponse_ExpiresIn = 3600\<rparr>, db))))))"

definition Logout :: "draws \<Rightarrow> token \<Rightarrow> database \<Rightarrow> error option \<times> database" where
  "Logout dr refreshToken db =
     (case sessionRepo_GetByToken db refreshToken of
        Inl _ \<Rightarrow> (None, db)
      | Inr session \<Rightarrow>
          sessionRepo_Delete (draw_delete_error dr (Session_ID session)) (Session_ID session) db)"



subsection \<open>Example data\<close>

text \<open>
  The inputs of the examples that close each property: the manager of the repository's
  own test (\<^verbatim>\<open>auth_test.go\<close>: one hour, seven days), the registration of the
  specification's scenario, what the outside delivers in two calls (the hook reads the
  clock one nanosecond after the operation, no statement fails), the database once Ann
  has registered at the instant 5, the refresh token she was given, the database once
  her sessions have been revoked by RevokeAllUserSessions, and what the outside
  delivers in a call during which the listing of the sessions fails, or every deletion
  of a session.
\<close>

definition example_manager :: JWTManager where
  "example_manager = NewJWTManager ''test-secret-key'' 1 7"

definition example_draws :: draws where
  "example_draws =
     \<lparr>draw_user_id = UUID 1, draw_password_id = UUID 2, draw_account_id = UUID 3,
      draw_session_id = UUID 4, draw_hook_id = UUID 5,
      draw_salt = Some ''0123456789abcdef'',
      draw_access_jti = Some ''aaaaaaaaaaaaaaaa'',
      draw_refresh_jti = Some ''bbbbbbbbbbbbbbbb'',
      draw_hook_now = 6,
      draw_list_error = None,
      draw_delete_error = (\<lambda>ident. None)\<rparr>"

definition example_draws2 :: draws where
  "example_draws2 =
     \<lparr>draw_user_id = UUID 11, draw_password_id = UUID 12, draw_account_id = UUID 13,
      draw_session_id = UUID 14, draw_hook_id = UUID 15,
      draw_salt = Some ''fedcba9876543210'',
      draw_access_jti = Some ''cccccccccccccccc'',
      draw_refresh_jti = Some ''dddddddddddddddd'',
      draw_hook_now = 9,
      draw_list_error = None,
      draw_delete_error = (\<lambda>ident. None)\<rparr>"

definition example_register :: RegisterRequest where
  "example_register =
     \<lparr>RegisterRequest_Name = ''Ann'', RegisterRequest_Email = ''a@x.com'',
      RegisterRequest_Password = ''Abc12345!'', RegisterRequest_Role = None\<rparr>"

definition empty_database :: database where
  "empty_database = \<lparr>users = [], accounts = [], sessions = [], passwords = []\<rparr>"

definition ann_database :: database where
  "ann_database = snd (Register example_manager 5 example_draws example_register empty_database)"

definition ann_refresh_token :: token where
  "ann_refresh_token =
     (case fst (Register example_manager 5 example_draws example_register empty_database) of
        Inr resp \<Rightarrow> AuthResponse_RefreshToken resp
      | Inl _ \<Rightarrow> NotJWT [])"

definition ann_revoked_database :: database where
  "ann_revoked_database = snd (sessionRepo_RevokeAllUserSessions (UUID 1) ann_database)"



section \<open>Properties\<close>

subsection \<open>Role check\<close>

lemma roleLevel_known:
  "roleLevel RoleCashier = 1" "roleLevel RoleManager = 2" "roleLevel RoleAdmin = 3"
  by (simp_all add: roleLevel_def roleHierarchy_def RoleCashier_def RoleManager_def
      RoleAdmin_def)

lemma roleLevel_unknown:
  assumes "r \<noteq> RoleCashier" "r \<noteq> RoleManager" "r \<noteq> RoleAdmin"
  shows "roleLevel r = 0"
  using assms by (simp add: roleLevel_def roleHierarchy_def)

lemma roleLevel_nonneg: "0 \<le> roleLevel r"
  by (cases "r = RoleCashier \<or> r = RoleManager \<or> r = RoleAdmin")
    (auto simp: roleLevel_known roleLevel_unknown)

text \<open>
  C10. A required role outside the closed set CASHIER, MANAGER, ADMIN has rank 0, so
  the check succeeds for every held role, recognised or not; and a held role outside
  the set has rank 0, so it is denied every recognised required role.
\<close>

theorem ValidateRole_unknown_roles:
  "(requiredRole \<notin> {RoleCashier, RoleManager, RoleAdmin}
      \<longrightarrow> ValidateRole heldRole requiredRole = None)
   \<and> (heldRole \<notin> {RoleCashier, RoleManager, RoleAdmin}
        \<and> requiredRole \<in> {RoleCashier, RoleManager, RoleAdmin}
      \<longrightarrow> ValidateRole heldRole requiredRole = Some ErrInsufficientRole)"
proof (intro conjI impI)
  assume "requiredRole \<notin> {RoleCashier, RoleManager, RoleAdmin}"
  then have "roleLevel requiredRole = 0"
    by (simp add: roleLevel_unknown)
  then show "ValidateRole heldRole requiredRole = None"
    using roleLevel_nonneg [of heldRole] by (simp add: ValidateRole_def Let_def)
next
  assume a: "heldRole \<notin> {RoleCashier, RoleManager, RoleAdmin}
    \<and> requiredRole \<in> {RoleCashier, RoleManager, RoleAdmin}"
  then have held0: "roleLevel heldRole = 0"
    by (simp add: roleLevel_unknown)
  from a have "0 < roleLevel requiredRole"
    by (auto simp: roleLevel_known)
  then show "ValidateRole heldRole requiredRole = Some ErrInsufficientRole"
    by (simp add: ValidateRole_def Let_def held0)
qed

theorem ValidateRole_unknown_roles_witness:
  "ValidateRole ''CASHIER'' ''AUDITOR'' = None
   \<and> ValidateRole ''GUEST'' ''AUDITOR'' = None
   \<and> ValidateRole ''GUEST'' ''CASHIER'' = Some ErrInsufficientRole"
  using ValidateRole_unknown_roles [of "''AUDITOR''" "''CASHIER''"]
    ValidateRole_unknown_roles [of "''AUDITOR''" "''GUEST''"]
    ValidateRole_unknown_roles [of "''CASHIER''" "''GUEST''"]
  by (simp add: RoleCashier_def RoleManager_def RoleAdmin_def)

subsection \<open>Issuing and validating tokens\<close>

lemma Second_pos: "0 < Second"
  by (simp add: Second_def)

lemma jwt_NewNumericDate_le: "jwt_NewNumericDate t \<le> t"
  using Second_pos by (simp add: jwt_NewNumericDate_def)













subsection \<open>Hashing and verifying a secret\<close>

lemma bcrypt_key_length: "length (bcrypt_key p) = 72"
  by (simp add: bcrypt_key_def Let_def)

lemma bcrypt_key_long: "72 \<le> length p \<Longrightarrow> bcrypt_key p = take 72 p"
  by (rule nth_equalityI) (auto simp: bcrypt_key_def Let_def nth_append)

lemma bcrypt_key_prefix: "i < length p \<Longrightarrow> i < 72 \<Longrightarrow> bcrypt_key p ! i = p ! i"
  by (simp add: bcrypt_key_def Let_def nth_append)

lemma bcrypt_key_nul: "length p < 72 \<Longrightarrow> bcrypt_key p ! length p = CHR 0x00"
  by (simp add: bcrypt_key_def Let_def nth_append)

lemma bcrypt_key_short:
  assumes "length p < 72" and "CHR 0x00 \<notin> set p"
  shows "takeWhile (\<lambda>c. c \<noteq> CHR 0x00) (bcrypt_key p) = p"
proof -
  let ?k = "bcrypt_key p"
  have tk: "take (length p) ?k = p"
    using assms(1) by (intro nth_equalityI) (simp_all add: bcrypt_key_length bcrypt_key_prefix)
  have "drop (length p) ?k = ?k ! length p # drop (Suc (length p)) ?k"
    using assms(1) by (simp add: Cons_nth_drop_Suc bcrypt_key_length)
  then have dk: "drop (length p) ?k = CHR 0x00 # drop (Suc (length p)) ?k"
    using assms(1) by (simp add: bcrypt_key_nul)
  have "?k = p @ CHR 0x00 # drop (Suc (length p)) ?k"
    using append_take_drop_id [of "length p" ?k] tk dk by simp
  then have "takeWhile (\<lambda>c. c \<noteq> CHR 0x00) ?k
      = takeWhile (\<lambda>c. c \<noteq> CHR 0x00) (p @ CHR 0x00 # drop (Suc (length p)) ?k)"
    by simp
  also have "\<dots> = takeWhile (\<lambda>c. c \<noteq> CHR 0x00) p"
    by (rule takeWhile_tail) simp
  also have "\<dots> = p"
    using assms(2) by (auto simp: takeWhile_eq_all_conv)
  finally show ?thesis .
qed

lemma bcrypt_key_inj:
  assumes "CHR 0x00 \<notin> set p" and "CHR 0x00 \<notin> set q"
    and "length p \<le> 72" and "length q \<le> 72"
    and eq: "bcrypt_key p = bcrypt_key q"
  shows "p = q"
proof -
  have mixed: "False"
    if "length a < 72" and "length b = 72" and "CHR 0x00 \<notin> set b"
      and "bcrypt_key a = bcrypt_key b" for a b
  proof -
    have "bcrypt_key b = b"
      using that(2) by (simp add: bcrypt_key_long)
    with that(4) have "bcrypt_key a = b" by simp
    then have "b ! length a = CHR 0x00"
      using that(1) bcrypt_key_nul [of a] by simp
    then show False
      using that(1,2,3) nth_mem [of "length a" b] by simp
  qed
  consider "length p < 72" "length q < 72" | "length p = 72" "length q = 72"
    | "length p < 72" "length q = 72" | "length q < 72" "length p = 72"
    using assms(3,4) by linarith
  then show ?thesis
  proof cases
    case 1
    have "p = takeWhile (\<lambda>c. c \<noteq> CHR 0x00) (bcrypt_key p)"
      using 1(1) assms(1) by (rule bcrypt_key_short [symmetric])
    also have "\<dots> = takeWhile (\<lambda>c. c \<noteq> CHR 0x00) (bcrypt_key q)"
      by (simp only: eq)
    also have "\<dots> = q"
      using 1(2) assms(2) by (rule bcrypt_key_short)
    finally show ?thesis .
  next
    case 2
    then have "bcrypt_key p = p" and "bcrypt_key q = q"
      by (simp_all add: bcrypt_key_long)
    with eq show ?thesis by simp
  next
    case 3
    then show ?thesis
      using mixed [of p q] assms(2) eq by simp
  next
    case 4
    then show ?thesis
      using mixed [of q p] assms(1) eq by simp
  qed
qed

text \<open>
  C8, as amended. For every secret S that the strength policy accepts and that is at
  most 72 bytes long, hashing succeeds (cost at most 31, salt read) and verifying S
  against its hash succeeds; and verifying any other secret S' of at most 72 bytes
  against that hash fails, when neither S nor S' holds a zero byte. Secrets of 73 to
  128 bytes, which the policy accepts, are outside: bcrypt reads 72 bytes only.
\<close>

theorem HashPassword_VerifyPassword:
  assumes "ValidatePassword S = None" and "length S \<le> 72"
    and "saltRounds pm \<le> bcrypt_MaxCost"
  shows "\<exists>h. HashPassword pm (Some salt) S = Inr h
           \<and> VerifyPassword pm S h = None
           \<and> (\<forall>S'. S' \<noteq> S \<and> length S' \<le> 72 \<and> CHR 0x00 \<notin> set S' \<and> CHR 0x00 \<notin> set S
                 \<longrightarrow> VerifyPassword pm S' h = Some bcrypt_ErrMismatchedHashAndPassword)"
proof -
  let ?c = "if saltRounds pm < bcrypt_MinCost then bcrypt_DefaultCost else saltRounds pm"
  let ?h = "bcrypt_Hash ?c salt (bcrypt_key S)"
  have c: "\<not> ?c > bcrypt_MaxCost"
    using assms(3) by (simp add: bcrypt_DefaultCost_def bcrypt_MaxCost_def)
  have "HashPassword pm (Some salt) S = Inr ?h"
    using assms(1,2) c by (simp add: HashPassword_def bcrypt_GenerateFromPassword_def Let_def)
  moreover have "VerifyPassword pm S ?h = None"
    by (simp add: VerifyPassword_def bcrypt_CompareHashAndPassword_def)
  moreover have "VerifyPassword pm S' ?h = Some bcrypt_ErrMismatchedHashAndPassword"
    if "S' \<noteq> S \<and> length S' \<le> 72 \<and> CHR 0x00 \<notin> set S' \<and> CHR 0x00 \<notin> set S" for S'
  proof -
    have "bcrypt_key S' \<noteq> bcrypt_key S"
      using that assms(2) bcrypt_key_inj [of S' S] by blast
    then show ?thesis
      by (simp add: VerifyPassword_def bcrypt_CompareHashAndPassword_def)
  qed
  ultimately show ?thesis by blast
qed

theorem HashPassword_VerifyPassword_witness:
  "\<exists>h. HashPassword (NewPasswordManager 12) (Some ''0123456789abcdef'') ''TestPassword123!'' = Inr h
     \<and> VerifyPassword (NewPasswordManager 12) ''TestPassword123!'' h = None
     \<and> VerifyPassword (NewPasswordManager 12) ''WrongPassword123!'' h
         = Some bcrypt_ErrMismatchedHashAndPassword"
proof -
  have v: "ValidatePassword ''TestPassword123!'' = None"
    by (simp add: ValidatePassword_def hasUpper_def hasLower_def hasNumber_def
        hasSpecial_def specialChars_def)
  have l: "length ''TestPassword123!'' \<le> 72" by simp
  have c: "saltRounds (NewPasswordManager 12) \<le> bcrypt_MaxCost"
    by (simp add: NewPasswordManager_def bcrypt_MaxCost_def)
  from HashPassword_VerifyPassword [OF v l c, of "''0123456789abcdef''"]
  obtain h where h: "HashPassword (NewPasswordManager 12) (Some ''0123456789abcdef'') ''TestPassword123!'' = Inr h"
    "VerifyPassword (NewPasswordManager 12) ''TestPassword123!'' h = None"
    "\<forall>S'. S' \<noteq> ''TestPassword123!'' \<and> length S' \<le> 72 \<and> CHR 0x00 \<notin> set S' \<and> CHR 0x00 \<notin> set ''TestPassword123!''
                 \<longrightarrow> VerifyPassword (NewPasswordManager 12) S' h = Some bcrypt_ErrMismatchedHashAndPassword"
    by blast
  from h(3) have "VerifyPassword (NewPasswordManager 12) ''WrongPassword123!'' h
         = Some bcrypt_ErrMismatchedHashAndPassword"
    by simp
  with h(1,2) show ?thesis by blast
qed

text \<open>
  C8 as stated fails at a secret of 72 bytes that the policy accepts: the different
  secret that appends one byte to it, accepted by the policy too, verifies against its
  hash; and that second secret cannot be hashed at all.
\<close>

theorem VerifyPassword_long_counterexample:
  "ValidatePassword (''Aa1!'' @ replicate 68 (CHR ''a'')) = None
   \<and> ValidatePassword (''Aa1!'' @ replicate 68 (CHR ''a'') @ ''b'') = None
   \<and> ''Aa1!'' @ replicate 68 (CHR ''a'') @ ''b'' \<noteq> ''Aa1!'' @ replicate 68 (CHR ''a'')
   \<and> HashPassword (NewPasswordManager 12) (Some ''0123456789abcdef'')
        (''Aa1!'' @ replicate 68 (CHR ''a''))
      = Inr (bcrypt_Hash 12 ''0123456789abcdef'' (''Aa1!'' @ replicate 68 (CHR ''a'')))
   \<and> VerifyPassword (NewPasswordManager 12) (''Aa1!'' @ replicate 68 (CHR ''a'') @ ''b'')
        (bcrypt_Hash 12 ''0123456789abcdef'' (''Aa1!'' @ replicate 68 (CHR ''a''))) = None
   \<and> HashPassword (NewPasswordManager 12) (Some ''0123456789abcdef'')
        (''Aa1!'' @ replicate 68 (CHR ''a'') @ ''b'') = Inl bcrypt_ErrPasswordTooLong"
proof -
  let ?S = "''Aa1!'' @ replicate 68 (CHR ''a'')"
  let ?S' = "''Aa1!'' @ replicate 68 (CHR ''a'') @ ''b''"
  have v: "ValidatePassword ?S = None"
    by (simp add: ValidatePassword_def hasUpper_def hasLower_def hasNumber_def
        hasSpecial_def specialChars_def)
  have v': "ValidatePassword ?S' = None"
    by (simp add: ValidatePassword_def hasUpper_def hasLower_def hasNumber_def
        hasSpecial_def specialChars_def)
  have k: "bcrypt_key ?S = ?S"
    by (simp add: bcrypt_key_long)
  have k': "bcrypt_key ?S' = ?S"
    by (simp add: bcrypt_key_long)
  have ne: "?S' \<noteq> ?S"
    by simp
  have h: "HashPassword (NewPasswordManager 12) (Some ''0123456789abcdef'') ?S
      = Inr (bcrypt_Hash 12 ''0123456789abcdef'' ?S)"
    using v k by (simp add: HashPassword_def bcrypt_GenerateFromPassword_def Let_def
        NewPasswordManager_def bcrypt_MinCost_def bcrypt_MaxCost_def)
  have c: "VerifyPassword (NewPasswordManager 12) ?S'
      (bcrypt_Hash 12 ''0123456789abcdef'' ?S) = None"
    using k' by (simp add: VerifyPassword_def bcrypt_CompareHashAndPassword_def)
  have l: "HashPassword (NewPasswordManager 12) (Some ''0123456789abcdef'') ?S'
      = Inl bcrypt_ErrPasswordTooLong"
    using v' by (simp add: HashPassword_def bcrypt_GenerateFromPassword_def)
  from v v' ne h c l show ?thesis by blast
qed

subsection \<open>Repositories and transactions\<close>

lemma find_SomeD: "find P xs = Some x \<Longrightarrow> x \<in> set xs \<and> P x"
  by (induction xs) (auto split: if_splits)

lemma userRepo_GetByEmail_absent:
  "email \<notin> set (map User_Email (users db))
    \<Longrightarrow> userRepo_GetByEmail db email = Inl gorm_ErrRecordNotFound"
  by (auto simp: userRepo_GetByEmail_def find_None_iff split: option.splits)


lemma sessionRepo_GetByToken_found:
  "sessionRepo_GetByToken db tok = Inr s
    \<Longrightarrow> s \<in> set (sessions db) \<and> Session_SessionToken s = tok"
  by (auto simp: sessionRepo_GetByToken_def split: option.splits dest!: find_SomeD)


lemma sessionRepo_Create_ok:
  assumes "sessionRepo_Create now fresh s db = (None, db')"
  shows "\<exists>r. sessions db' = sessions db @ [r]
    \<and> Session_SessionToken r = Session_SessionToken s
    \<and> Session_UserID r = Session_UserID s
    \<and> Session_ExpiresAt r = Session_ExpiresAt s
    \<and> Session_CreatedAt r = now \<and> Session_IsActive r"
  using assms
  by (auto simp: sessionRepo_Create_def Session_BeforeCreate_def Let_def split: if_splits)

lemma userRepo_Create_sessions:
  "userRepo_Create u db = (e, db') \<Longrightarrow> sessions db' = sessions db"
  by (auto simp: userRepo_Create_def split: if_splits)

lemma passwordRepo_Create_sessions:
  "passwordRepo_Create p db = (e, db') \<Longrightarrow> sessions db' = sessions db"
  by (auto simp: passwordRepo_Create_def split: if_splits)

lemma accountRepo_Create_sessions:
  "accountRepo_Create a db = (e, db') \<Longrightarrow> sessions db' = sessions db"
  by (auto simp: accountRepo_Create_def split: if_splits)

lemma gorm_Commit_Begin: "gorm_Commit (gorm_Begin db0) db = (None, db)"
  by (simp add: gorm_Commit_def gorm_Begin_def)

lemma userRepo_UpdateLastLogin_sessions:
  "sessions (snd (userRepo_UpdateLastLogin now i db)) = sessions db"
  by (simp add: userRepo_UpdateLastLogin_def)


subsection \<open>The example data, evaluated\<close>

lemmas repo_defs = userRepo_GetByEmail_def userRepo_GetByID_def userRepo_Create_def
  userRepo_UpdateLastLogin_def passwordRepo_Create_def passwordRepo_GetByUserID_def
  passwordRepo_Update_def accountRepo_Create_def sessionRepo_Create_def
  sessionRepo_GetByToken_def sessionRepo_GetByUserID_def sessionRepo_Delete_def
  sessionRepo_RevokeAllUserSessions_def Session_BeforeCreate_def gorm_Begin_def
  gorm_Rollback_def gorm_Commit_def uuid_Nil_def

lemmas token_defs = GenerateAccessToken_def GenerateRefreshToken_def generateUniqueID_def
  jwt_SignedString_def json_id_text_def json_string_def utf8_size_def utf8_in_def
  uuid_String_def uuid_Parse_def

lemmas validate_defs = ValidateRefreshToken_def ValidateAccessToken_def ValidateToken_def
  jwt_ParseWithClaims_def jwt_Validator_Validate_def
  is_SigningMethodHMAC_def jwt_NewNumericDate_def NewJWTManager_def wrap64_def Hour_def
  Second_def

lemmas bcrypt_defs = bcrypt_GenerateFromPassword_def bcrypt_CompareHashAndPassword_def
  bcrypt_DefaultCost_def bcrypt_MinCost_def bcrypt_MaxCost_def

lemma Register_example_database:
  "ann_database
   = \<lparr>users = [\<lparr>User_ID = UUID 1, User_Email = ''a@x.com'', User_Name = ''Ann'',
              User_Role = RoleCashier, User_IsActive = True, User_LastLoginAt = None\<rparr>],
       accounts = [\<lparr>Account_ID = UUID 3, Account_UserID = UUID 1, Account_Type = ''email'',
              Account_Provider = ''email'', Account_ProviderAccountID = ''a@x.com''\<rparr>],
       sessions = [\<lparr>Session_ID = UUID 4,
              Session_SessionToken = ann_refresh_token,
              Session_UserID = UUID 1, Session_ExpiresAt = 5 + 24 * Hour * 30,
              Session_IPAddress = Some [], Session_UserAgent = Some [],
              Session_IsActive = True, Session_CreatedAt = 6, Session_UpdatedAt = 6\<rparr>],
       passwords = [\<lparr>Password_ID = UUID 2, Password_UserID = UUID 1,
              Password_HashedPassword =
                bcrypt_Hash 10 ''0123456789abcdef'' (bcrypt_key ''Abc12345!'')\<rparr>]\<rparr>"
  by (simp add: ann_database_def ann_refresh_token_def Register_def Let_def repo_defs
      token_defs example_draws_def example_register_def empty_database_def bcrypt_defs)

lemma ann_refresh_token_eq:
  "ann_refresh_token
   = JWT SigningMethodHS256
       \<lparr>Claims_UserID = UUIDText (UUID 1), Claims_Email = ''a@x.com'',
        Claims_Role = [], Claims_Name = [],
        Claims_TokenType = ''refresh'',
        Claims_ID = ''62626262626262626262626262626262'',
        Claims_ExpiresAt = Some 604800000000000,
        Claims_IssuedAt = Some 0,
        Claims_NotBefore = Some 0,
        Claims_Issuer = ''pos-system'', Claims_Subject = UUIDText (UUID 1)\<rparr>
       ''test-secret-key''"
  by (simp add: ann_refresh_token_def Register_def Let_def repo_defs
      token_defs example_draws_def example_register_def empty_database_def bcrypt_defs
      example_manager_def jwt_NewNumericDate_def NewJWTManager_def wrap64_def Hour_def
      Second_def hex_EncodeToString_def hex_digit_def)

lemma ValidateRefreshToken_ann:
  "ValidateRefreshToken example_manager 7 ann_refresh_token
   = Inr \<lparr>Claims_UserID = UUIDText (UUID 1), Claims_Email = ''a@x.com'',
        Claims_Role = [], Claims_Name = [],
        Claims_TokenType = ''refresh'',
        Claims_ID = ''62626262626262626262626262626262'',
        Claims_ExpiresAt = Some 604800000000000,
        Claims_IssuedAt = Some 0,
        Claims_NotBefore = Some 0,
        Claims_Issuer = ''pos-system'', Claims_Subject = UUIDText (UUID 1)\<rparr>"
  by (simp add: ann_refresh_token_eq example_manager_def validate_defs)


lemma Logout_ann:
  "Logout example_draws2 ann_refresh_token ann_database
   = (None, ann_database\<lparr>sessions := []\<rparr>)"
  by (simp add: Logout_def Register_example_database repo_defs example_draws2_def)

lemma ann_revoked_database_eq:
  "ann_revoked_database
   = \<lparr>users = [\<lparr>User_ID = UUID 1, User_Email = ''a@x.com'', User_Name = ''Ann'',
              User_Role = RoleCashier, User_IsActive = True, User_LastLoginAt = None\<rparr>],
       accounts = [\<lparr>Account_ID = UUID 3, Account_UserID = UUID 1, Account_Type = ''email'',
              Account_Provider = ''email'', Account_ProviderAccountID = ''a@x.com''\<rparr>],
       sessions = [\<lparr>Session_ID = UUID 4,
              Session_SessionToken = ann_refresh_token,
              Session_UserID = UUID 1, Session_ExpiresAt = 5 + 24 * Hour * 30,
              Session_IPAddress = Some [], Session_UserAgent = Some [],
              Session_IsActive = False, Session_CreatedAt = 6, Session_UpdatedAt = 6\<rparr>],
       passwords = [\<lparr>Password_ID = UUID 2, Password_UserID = UUID 1,
              Password_HashedPassword =
                bcrypt_Hash 10 ''0123456789abcdef'' (bcrypt_key ''Abc12345!'')\<rparr>]\<rparr>"
  by (simp add: ann_revoked_database_def sessionRepo_RevokeAllUserSessions_def
      Register_example_database)

subsection \<open>Login\<close>

text \<open>
  C7. Login for an email that no user has and login for the email of an active user
  with a secret that does not verify against the stored hash return the same error,
  ErrInvalidCredentials, and both leave the database as it was.
\<close>

theorem Login_same_error:
  assumes "LoginRequest_Email req1 \<notin> set (map User_Email (users db))"
    and "userRepo_GetByEmail db (LoginRequest_Email req2) = Inr user"
    and "User_IsActive user"
    and "passwordRepo_GetByUserID db (User_ID user) = Inr password"
    and "bcrypt_CompareHashAndPassword (Password_HashedPassword password)
           (LoginRequest_Password req2) \<noteq> None"
  shows "Login j now dr req1 db = (Inl ErrInvalidCredentials, db)
    \<and> Login j' now' dr' req2 db = (Inl ErrInvalidCredentials, db)"
proof
  show "Login j now dr req1 db = (Inl ErrInvalidCredentials, db)"
    using assms(1) by (simp add: Login_def userRepo_GetByEmail_absent)
  show "Login j' now' dr' req2 db = (Inl ErrInvalidCredentials, db)"
    using assms(2-5) by (auto simp: Login_def split: option.splits)
qed

lemma bcrypt_key_differs: "bcrypt_key ''Abc12345?'' \<noteq> bcrypt_key ''Abc12345!''"
  using bcrypt_key_inj [of "''Abc12345?''" "''Abc12345!''"] by auto

theorem Login_same_error_witness:
  "Login example_manager 8 example_draws2
     \<lparr>LoginRequest_Email = ''b@x.com'', LoginRequest_Password = ''Abc12345!''\<rparr> ann_database
     = (Inl ErrInvalidCredentials, ann_database)
   \<and> Login example_manager 8 example_draws2
     \<lparr>LoginRequest_Email = ''a@x.com'', LoginRequest_Password = ''Abc12345?''\<rparr> ann_database
     = (Inl ErrInvalidCredentials, ann_database)"
proof -
  let ?u = "\<lparr>User_ID = UUID 1, User_Email = ''a@x.com'', User_Name = ''Ann'',
    User_Role = RoleCashier, User_IsActive = True, User_LastLoginAt = None\<rparr>"
  let ?p = "\<lparr>Password_ID = UUID 2, Password_UserID = UUID 1,
    Password_HashedPassword = bcrypt_Hash 10 ''0123456789abcdef'' (bcrypt_key ''Abc12345!'')\<rparr>"
  have 1: "LoginRequest_Email \<lparr>LoginRequest_Email = ''b@x.com'',
      LoginRequest_Password = ''Abc12345!''\<rparr> \<notin> set (map User_Email (users ann_database))"
    by (simp add: Register_example_database)
  have 2: "userRepo_GetByEmail ann_database (LoginRequest_Email
      \<lparr>LoginRequest_Email = ''a@x.com'', LoginRequest_Password = ''Abc12345?''\<rparr>) = Inr ?u"
    by (simp add: Register_example_database userRepo_GetByEmail_def)
  have 3: "User_IsActive ?u"
    by simp
  have 4: "passwordRepo_GetByUserID ann_database (User_ID ?u) = Inr ?p"
    by (simp add: Register_example_database passwordRepo_GetByUserID_def)
  have 5: "bcrypt_CompareHashAndPassword (Password_HashedPassword ?p) (LoginRequest_Password
      \<lparr>LoginRequest_Email = ''a@x.com'', LoginRequest_Password = ''Abc12345?''\<rparr>) \<noteq> None"
    using bcrypt_key_differs by (simp add: bcrypt_CompareHashAndPassword_def)
  show ?thesis
    by (rule Login_same_error [OF 1 2 3 4 5])
qed

subsection \<open>Sessions created by Register and Login\<close>

lemma Register_ok:
  assumes "Register j now dr req db = (Inr resp, db')"
  shows "AuthResponse_ExpiresIn resp = 3600
    \<and> (\<exists>s. sessions db' = sessions db @ [s]
          \<and> Session_SessionToken s = AuthResponse_RefreshToken resp
          \<and> Session_CreatedAt s = draw_hook_now dr
          \<and> Session_ExpiresAt s = now + 24 * Hour * 30)"
  using assms
  by (auto simp: Register_def Let_def gorm_Commit_Begin
      split: sum.splits prod.splits option.splits
      dest!: sessionRepo_Create_ok userRepo_Create_sessions passwordRepo_Create_sessions
        accountRepo_Create_sessions)

lemma Login_ok:
  assumes "Login j now dr req db = (Inr resp, db')"
  shows "AuthResponse_ExpiresIn resp = 3600
    \<and> (\<exists>s. sessions db' = sessions db @ [s]
          \<and> Session_SessionToken s = AuthResponse_RefreshToken resp
          \<and> Session_CreatedAt s = draw_hook_now dr
          \<and> Session_ExpiresAt s = now + 24 * Hour * 30)"
  using assms
  by (auto simp: Login_def Let_def userRepo_UpdateLastLogin_sessions
      split: sum.splits prod.splits option.splits if_splits
      dest!: sessionRepo_Create_ok)

text \<open>
  C9, as amended. Whatever the manager (so whatever the lifetimes it was configured
  with), a successful Register or Login adds one session, for the refresh token it
  returns, whose expiry is exactly 30 days after the instant \<open>now\<close> that the
  operation reads from the clock when it builds the session, and reports
  ExpiresIn = 3600. The creation stamp of the session is the instant that the hook
  reads when the row is inserted; when that reading is not before the first, the
  expiry is at most 30 days after the creation stamp.
\<close>

theorem session_expiry_30_days:
  "(Register j now dr req db = (Inr resp, db') \<longrightarrow>
      AuthResponse_ExpiresIn resp = 3600
      \<and> (\<exists>s. sessions db' = sessions db @ [s]
            \<and> Session_SessionToken s = AuthResponse_RefreshToken resp
            \<and> Session_ExpiresAt s = now + 30 * (24 * Hour)
            \<and> Session_CreatedAt s = draw_hook_now dr
            \<and> (now \<le> draw_hook_now dr
                  \<longrightarrow> Session_ExpiresAt s \<le> Session_CreatedAt s + 30 * (24 * Hour))))
   \<and> (Login j now dr lreq db = (Inr resp, db') \<longrightarrow>
      AuthResponse_ExpiresIn resp = 3600
      \<and> (\<exists>s. sessions db' = sessions db @ [s]
            \<and> Session_SessionToken s = AuthResponse_RefreshToken resp
            \<and> Session_ExpiresAt s = now + 30 * (24 * Hour)
            \<and> Session_CreatedAt s = draw_hook_now dr
            \<and> (now \<le> draw_hook_now dr
                  \<longrightarrow> Session_ExpiresAt s \<le> Session_CreatedAt s + 30 * (24 * Hour))))"
proof (intro conjI impI)
  assume "Register j now dr req db = (Inr resp, db')"
  from Register_ok [OF this]
  show "AuthResponse_ExpiresIn resp = 3600" by simp
next
  assume "Register j now dr req db = (Inr resp, db')"
  from Register_ok [OF this]
  show "\<exists>s. sessions db' = sessions db @ [s]
            \<and> Session_SessionToken s = AuthResponse_RefreshToken resp
            \<and> Session_ExpiresAt s = now + 30 * (24 * Hour)
            \<and> Session_CreatedAt s = draw_hook_now dr
            \<and> (now \<le> draw_hook_now dr
                  \<longrightarrow> Session_ExpiresAt s \<le> Session_CreatedAt s + 30 * (24 * Hour))"
    by auto
next
  assume "Login j now dr lreq db = (Inr resp, db')"
  from Login_ok [OF this]
  show "AuthResponse_ExpiresIn resp = 3600" by simp
next
  assume "Login j now dr lreq db = (Inr resp, db')"
  from Login_ok [OF this]
  show "\<exists>s. sessions db' = sessions db @ [s]
            \<and> Session_SessionToken s = AuthResponse_RefreshToken resp
            \<and> Session_ExpiresAt s = now + 30 * (24 * Hour)
            \<and> Session_CreatedAt s = draw_hook_now dr
            \<and> (now \<le> draw_hook_now dr
                  \<longrightarrow> Session_ExpiresAt s \<le> Session_CreatedAt s + 30 * (24 * Hour))"
    by auto
qed

theorem session_expiry_30_days_witness:
  "(\<exists>resp db'. Register example_manager 5 example_draws example_register empty_database
        = (Inr resp, db')
      \<and> AuthResponse_ExpiresIn resp = 3600
      \<and> (\<exists>s. sessions db' = [s] \<and> Session_ExpiresAt s = 2592000000000005
            \<and> Session_CreatedAt s = 6
            \<and> Session_ExpiresAt s \<le> Session_CreatedAt s + 30 * (24 * Hour)))
   \<and> (\<exists>resp db'. Login example_manager 8 example_draws2
        \<lparr>LoginRequest_Email = ''a@x.com'', LoginRequest_Password = ''Abc12345!''\<rparr>
        ann_database = (Inr resp, db')
      \<and> AuthResponse_ExpiresIn resp = 3600
      \<and> (\<exists>s. sessions db' = sessions ann_database @ [s]
            \<and> Session_ExpiresAt s = 2592000000000008
            \<and> Session_CreatedAt s = 9
            \<and> Session_ExpiresAt s \<le> Session_CreatedAt s + 30 * (24 * Hour)))"
proof
  obtain r d where rd: "Register example_manager 5 example_draws example_register
      empty_database = (r, d)"
    by fastforce
  have "\<not> isl r"
    using rd
    by (simp add: Register_def Let_def repo_defs token_defs example_draws_def
        example_register_def empty_database_def bcrypt_defs) auto
  then obtain resp where "r = Inr resp"
    by (cases r) auto
  with rd have e: "Register example_manager 5 example_draws example_register
      empty_database = (Inr resp, d)"
    by simp
  from session_expiry_30_days [THEN conjunct1, rule_format, OF e]
  obtain s where x: "AuthResponse_ExpiresIn resp = 3600"
    and s: "sessions d = sessions empty_database @ [s]"
      "Session_ExpiresAt s = 5 + 30 * (24 * Hour)"
      "Session_CreatedAt s = draw_hook_now example_draws"
      "5 \<le> draw_hook_now example_draws
        \<longrightarrow> Session_ExpiresAt s \<le> Session_CreatedAt s + 30 * (24 * Hour)"
    by blast
  from s have "sessions d = [s] \<and> Session_ExpiresAt s = 2592000000000005
      \<and> Session_CreatedAt s = 6
      \<and> Session_ExpiresAt s \<le> Session_CreatedAt s + 30 * (24 * Hour)"
    by (simp add: empty_database_def example_draws_def Hour_def Second_def)
  with x e show "\<exists>resp db'. Register example_manager 5 example_draws example_register
        empty_database = (Inr resp, db')
      \<and> AuthResponse_ExpiresIn resp = 3600
      \<and> (\<exists>s. sessions db' = [s] \<and> Session_ExpiresAt s = 2592000000000005
            \<and> Session_CreatedAt s = 6
            \<and> Session_ExpiresAt s \<le> Session_CreatedAt s + 30 * (24 * Hour))"
    by blast
next
  let ?req = "\<lparr>LoginRequest_Email = ''a@x.com'', LoginRequest_Password = ''Abc12345!''\<rparr>"
  obtain r d where rd: "Login example_manager 8 example_draws2 ?req ann_database = (r, d)"
    by fastforce
  have "\<not> isl r"
    using rd
    by (simp add: Login_def Let_def Register_example_database ann_refresh_token_eq
        repo_defs token_defs example_draws2_def bcrypt_defs hex_EncodeToString_def
        hex_digit_def example_manager_def validate_defs) auto
  then obtain resp where "r = Inr resp"
    by (cases r) auto
  with rd have e: "Login example_manager 8 example_draws2 ?req ann_database = (Inr resp, d)"
    by simp
  from session_expiry_30_days [THEN conjunct2, rule_format, OF e]
  obtain s where x: "AuthResponse_ExpiresIn resp = 3600"
    and s: "sessions d = sessions ann_database @ [s]"
      "Session_ExpiresAt s = 8 + 30 * (24 * Hour)"
      "Session_CreatedAt s = draw_hook_now example_draws2"
      "8 \<le> draw_hook_now example_draws2
        \<longrightarrow> Session_ExpiresAt s \<le> Session_CreatedAt s + 30 * (24 * Hour)"
    by blast
  from s have "sessions d = sessions ann_database @ [s]
      \<and> Session_ExpiresAt s = 2592000000000008
      \<and> Session_CreatedAt s = 9
      \<and> Session_ExpiresAt s \<le> Session_CreatedAt s + 30 * (24 * Hour)"
    by (simp add: example_draws2_def Hour_def Second_def)
  with x e show "\<exists>resp db'. Login example_manager 8 example_draws2 ?req ann_database
        = (Inr resp, db')
      \<and> AuthResponse_ExpiresIn resp = 3600
      \<and> (\<exists>s. sessions db' = sessions ann_database @ [s]
            \<and> Session_ExpiresAt s = 2592000000000008
            \<and> Session_CreatedAt s = 9
            \<and> Session_ExpiresAt s \<le> Session_CreatedAt s + 30 * (24 * Hour))"
    by blast
qed

text \<open>
  C9 as stated fails on a running clock: Register reads the clock at the instant 5 for
  the expiry, the hook reads it at the instant 6 for the creation stamp, and the
  expiry of the session is one nanosecond less than 30 days after its creation stamp.
\<close>

theorem session_expiry_counterexample:
  "\<not> isl (fst (Register example_manager 5 example_draws example_register empty_database))
   \<and> draw_hook_now example_draws = 6
   \<and> map Session_CreatedAt
       (sessions (snd (Register example_manager 5 example_draws example_register
          empty_database))) = [6]
   \<and> map Session_ExpiresAt
       (sessions (snd (Register example_manager 5 example_draws example_register
          empty_database))) = [6 + 30 * (24 * Hour) - 1]"
proof -
  obtain r d where rd: "Register example_manager 5 example_draws example_register
      empty_database = (r, d)"
    by fastforce
  then have "\<not> isl r \<and> map Session_CreatedAt (sessions d) = [6]
      \<and> map Session_ExpiresAt (sessions d) = [6 + 30 * (24 * Hour) - 1]"
    by (simp add: Register_def Let_def repo_defs token_defs example_draws_def
        example_register_def empty_database_def bcrypt_defs) auto
  with rd show ?thesis
    by (simp add: example_draws_def)
qed

subsection \<open>Refresh with a revoked session\<close>


text \<open>
  C1. RefreshToken looks at the expiry of the session row and never at its flag
  IsActive. Ann's session has been revoked by RevokeAllUserSessions: its row is there
  and inactive. Her account is active, the signature of her refresh token is valid and
  neither the token nor the session has expired. RefreshToken succeeds, issues an
  access token and leaves the database as it is. After Logout, which removes the row,
  the same call fails with ErrInvalidToken.
\<close>

theorem RefreshToken_revoked_session:
  "map Session_SessionToken (sessions ann_revoked_database) = [ann_refresh_token]
   \<and> map Session_IsActive (sessions ann_revoked_database) = [False]
   \<and> map User_IsActive (users ann_revoked_database) = [True]
   \<and> \<not> isl (ValidateRefreshToken example_manager 7 ann_refresh_token)
   \<and> RefreshToken example_manager 7 example_draws2
       \<lparr>RefreshTokenRequest_RefreshToken = ann_refresh_token\<rparr> ann_revoked_database
     = (Inr \<lparr>RefreshTokenResponse_AccessToken =
               JWT SigningMethodHS256
                 \<lparr>Claims_UserID = UUIDText (UUID 1), Claims_Email = ''a@x.com'',
                  Claims_Role = ''CASHIER'', Claims_Name = ''Ann'',
                  Claims_TokenType = ''access'',
                  Claims_ID = ''63636363636363636363636363636363'',
                  Claims_ExpiresAt = Some (3600 * Second),
                  Claims_IssuedAt = Some 0,
                  Claims_NotBefore = Some 0,
                  Claims_Issuer = ''pos-system'', Claims_Subject = UUIDText (UUID 1)\<rparr>
                 ''test-secret-key'',
             RefreshTokenResponse_RefreshToken = NotJWT [],
             RefreshTokenResponse_ExpiresIn = 3600\<rparr>,
        ann_revoked_database)
   \<and> RefreshToken example_manager 7 example_draws2
       \<lparr>RefreshTokenRequest_RefreshToken = ann_refresh_token\<rparr>
       (snd (Logout example_draws2 ann_refresh_token ann_database))
     = (Inl ErrInvalidToken, snd (Logout example_draws2 ann_refresh_token ann_database))"
proof (intro conjI)
  show "map Session_SessionToken (sessions ann_revoked_database) = [ann_refresh_token]"
    by (simp add: ann_revoked_database_eq)
  show "map Session_IsActive (sessions ann_revoked_database) = [False]"
    by (simp add: ann_revoked_database_eq)
  show "map User_IsActive (users ann_revoked_database) = [True]"
    by (simp add: ann_revoked_database_eq)
  show "\<not> isl (ValidateRefreshToken example_manager 7 ann_refresh_token)"
    by (simp add: ValidateRefreshToken_ann)
  show "RefreshToken example_manager 7 example_draws2
       \<lparr>RefreshTokenRequest_RefreshToken = ann_refresh_token\<rparr> ann_revoked_database
     = (Inr \<lparr>RefreshTokenResponse_AccessToken =
               JWT SigningMethodHS256
                 \<lparr>Claims_UserID = UUIDText (UUID 1), Claims_Email = ''a@x.com'',
                  Claims_Role = ''CASHIER'', Claims_Name = ''Ann'',
                  Claims_TokenType = ''access'',
                  Claims_ID = ''63636363636363636363636363636363'',
                  Claims_ExpiresAt = Some (3600 * Second),
                  Claims_IssuedAt = Some 0,
                  Claims_NotBefore = Some 0,
                  Claims_Issuer = ''pos-system'', Claims_Subject = UUIDText (UUID 1)\<rparr>
                 ''test-secret-key'',
             RefreshTokenResponse_RefreshToken = NotJWT [],
             RefreshTokenResponse_ExpiresIn = 3600\<rparr>,
        ann_revoked_database)"
    by (simp add: RefreshToken_def ValidateRefreshToken_ann uuid_Parse_def)
      (simp add: ann_revoked_database_eq repo_defs token_defs example_draws2_def
        example_manager_def RoleCashier_def hex_EncodeToString_def hex_digit_def
        jwt_NewNumericDate_def NewJWTManager_def wrap64_def Hour_def Second_def)
  show "RefreshToken example_manager 7 example_draws2
       \<lparr>RefreshTokenRequest_RefreshToken = ann_refresh_token\<rparr>
       (snd (Logout example_draws2 ann_refresh_token ann_database))
     = (Inl ErrInvalidToken, snd (Logout example_draws2 ann_refresh_token ann_database))"
    by (simp add: RefreshToken_def ValidateRefreshToken_ann uuid_Parse_def Logout_ann)
      (simp add: Register_example_database repo_defs)
qed

subsection \<open>Refresh after ChangePassword\<close>





subsection \<open>Register\<close>

text \<open>
  C2. Register is not all-or-nothing. The transaction it begins holds no statement, so
  the rollback on a failing step undoes nothing: when hashing fails (a secret of 73
  bytes, which the strength policy accepts), the user row stays without a credential,
  and the email is taken from then on; when the account row cannot be created, the
  user row and the password row stay.
\<close>

theorem Register_failure_leaves_rows:
  "ValidatePassword (''Aa1!'' @ replicate 69 (CHR ''a'')) = None
   \<and> Register example_manager 5 example_draws
       (example_register\<lparr>RegisterRequest_Password := ''Aa1!'' @ replicate 69 (CHR ''a'')\<rparr>)
       empty_database
     = (Inl (fmt_Errorf ''failed to hash password'' bcrypt_ErrPasswordTooLong),
        empty_database\<lparr>users :=
          [\<lparr>User_ID = UUID 1, User_Email = ''a@x.com'', User_Name = ''Ann'',
            User_Role = RoleCashier, User_IsActive = True, User_LastLoginAt = None\<rparr>]\<rparr>)
   \<and> Register example_manager 6 example_draws2 example_register
       (empty_database\<lparr>users :=
          [\<lparr>User_ID = UUID 1, User_Email = ''a@x.com'', User_Name = ''Ann'',
            User_Role = RoleCashier, User_IsActive = True, User_LastLoginAt = None\<rparr>]\<rparr>)
     = (Inl ErrEmailAlreadyExists,
        empty_database\<lparr>users :=
          [\<lparr>User_ID = UUID 1, User_Email = ''a@x.com'', User_Name = ''Ann'',
            User_Role = RoleCashier, User_IsActive = True, User_LastLoginAt = None\<rparr>]\<rparr>)
   \<and> Register example_manager 5 example_draws example_register
       \<lparr>users = [\<lparr>User_ID = UUID 9, User_Email = ''z@x.com'', User_Name = ''Zed'',
            User_Role = RoleCashier, User_IsActive = True, User_LastLoginAt = None\<rparr>],
        accounts = [\<lparr>Account_ID = UUID 8, Account_UserID = UUID 9, Account_Type = ''email'',
            Account_Provider = ''email'', Account_ProviderAccountID = ''a@x.com''\<rparr>],
        sessions = [], passwords = []\<rparr>
     = (Inl (fmt_Errorf ''failed to create account'' gorm_ErrDuplicatedKey),
        \<lparr>users = [\<lparr>User_ID = UUID 9, User_Email = ''z@x.com'', User_Name = ''Zed'',
            User_Role = RoleCashier, User_IsActive = True, User_LastLoginAt = None\<rparr>,
           \<lparr>User_ID = UUID 1, User_Email = ''a@x.com'', User_Name = ''Ann'',
            User_Role = RoleCashier, User_IsActive = True, User_LastLoginAt = None\<rparr>],
        accounts = [\<lparr>Account_ID = UUID 8, Account_UserID = UUID 9, Account_Type = ''email'',
            Account_Provider = ''email'', Account_ProviderAccountID = ''a@x.com''\<rparr>],
        sessions = [],
        passwords = [\<lparr>Password_ID = UUID 2, Password_UserID = UUID 1,
            Password_HashedPassword =
              bcrypt_Hash 10 ''0123456789abcdef'' (bcrypt_key ''Abc12345!'')\<rparr>]\<rparr>)"
proof (intro conjI)
  show "ValidatePassword (''Aa1!'' @ replicate 69 (CHR ''a'')) = None"
    by (simp add: ValidatePassword_def hasUpper_def hasLower_def hasNumber_def
        hasSpecial_def specialChars_def)
  show "Register example_manager 5 example_draws
       (example_register\<lparr>RegisterRequest_Password := ''Aa1!'' @ replicate 69 (CHR ''a'')\<rparr>)
       empty_database
     = (Inl (fmt_Errorf ''failed to hash password'' bcrypt_ErrPasswordTooLong),
        empty_database\<lparr>users :=
          [\<lparr>User_ID = UUID 1, User_Email = ''a@x.com'', User_Name = ''Ann'',
            User_Role = RoleCashier, User_IsActive = True, User_LastLoginAt = None\<rparr>]\<rparr>)"
    by (simp add: Register_def Let_def repo_defs example_draws_def example_register_def
        empty_database_def bcrypt_defs)
  show "Register example_manager 6 example_draws2 example_register
       (empty_database\<lparr>users :=
          [\<lparr>User_ID = UUID 1, User_Email = ''a@x.com'', User_Name = ''Ann'',
            User_Role = RoleCashier, User_IsActive = True, User_LastLoginAt = None\<rparr>]\<rparr>)
     = (Inl ErrEmailAlreadyExists,
        empty_database\<lparr>users :=
          [\<lparr>User_ID = UUID 1, User_Email = ''a@x.com'', User_Name = ''Ann'',
            User_Role = RoleCashier, User_IsActive = True, User_LastLoginAt = None\<rparr>]\<rparr>)"
    by (simp add: Register_def repo_defs example_register_def empty_database_def)
  show "Register example_manager 5 example_draws example_register
       \<lparr>users = [\<lparr>User_ID = UUID 9, User_Email = ''z@x.com'', User_Name = ''Zed'',
            User_Role = RoleCashier, User_IsActive = True, User_LastLoginAt = None\<rparr>],
        accounts = [\<lparr>Account_ID = UUID 8, Account_UserID = UUID 9, Account_Type = ''email'',
            Account_Provider = ''email'', Account_ProviderAccountID = ''a@x.com''\<rparr>],
        sessions = [], passwords = []\<rparr>
     = (Inl (fmt_Errorf ''failed to create account'' gorm_ErrDuplicatedKey),
        \<lparr>users = [\<lparr>User_ID = UUID 9, User_Email = ''z@x.com'', User_Name = ''Zed'',
            User_Role = RoleCashier, User_IsActive = True, User_LastLoginAt = None\<rparr>,
           \<lparr>User_ID = UUID 1, User_Email = ''a@x.com'', User_Name = ''Ann'',
            User_Role = RoleCashier, User_IsActive = True, User_LastLoginAt = None\<rparr>],
        accounts = [\<lparr>Account_ID = UUID 8, Account_UserID = UUID 9, Account_Type = ''email'',
            Account_Provider = ''email'', Account_ProviderAccountID = ''a@x.com''\<rparr>],
        sessions = [],
        passwords = [\<lparr>Password_ID = UUID 2, Password_UserID = UUID 1,
            Password_HashedPassword =
              bcrypt_Hash 10 ''0123456789abcdef'' (bcrypt_key ''Abc12345!'')\<rparr>]\<rparr>)"
    by (simp add: Register_def Let_def repo_defs example_draws_def example_register_def
        bcrypt_defs)
qed






end
